theory Spec2Isabelle
  imports Main "HOL-Library.Multiset"
begin

section \<open>The fantasy-contest server: data model\<close>

text \<open>
  The server (\<^verbatim>\<open>src/server.js\<close>) is an Express application over five Mongoose
  collections. Each route handler is embedded as a function from the database before the
  request to the database after it and the HTTP response.

  Conventions of the embedding:
  \<^item> a Mongoose document is a record; its \<^verbatim>\<open>_id\<close> is a natural number
    (\<open>object_id\<close>); a collection is the list of its documents in insertion order;
  \<^item> a JavaScript \<^verbatim>\<open>Number\<close> holding money, points or a counter is an \<open>int\<close>
    (whole rupees; fractional and non-finite values are outside the model);
  \<^item> a \<^verbatim>\<open>Date\<close> is a natural number of milliseconds; the value of
    \<^verbatim>\<open>Date.now()\<close> and the fresh \<^verbatim>\<open>ObjectId\<close> of a new document are arguments of
    the handler that creates the document;
  \<^item> request bodies are well typed (every field present, with the type the schema
    casts to), and the storage layer itself does not fail;
  \<^item> a handler function is the request served without another request in between,
    the middleware included; where the time between the middleware and the route
    matters, the route is a function of its own that takes \<^verbatim>\<open>req.user\<close> as an argument.
  Field names shared by several schemas carry the schema's name as a prefix.
\<close>

type_synonym object_id = nat

record user =
  user_id :: object_id
  name :: string
  email :: string
  phone :: string
  password :: string
  balance :: int
  totalWinning :: int
  totalContests :: int
  kycVerified :: bool
  user_createdAt :: nat

record prize_tier =
  rankFrom :: int
  rankTo :: int
  prize :: int

record contest =
  contest_id :: object_id
  contest_matchId :: string
  contest_name :: string
  entryFee :: int
  prizePool :: int
  maxTeams :: int
  joinedTeams :: int
  winningBreakup :: "prize_tier list"
  isActive :: bool
  contest_createdAt :: nat

record player =
  playerId :: string
  player_name :: string
  role :: string
  points :: int

record team =
  team_id :: object_id
  userId :: object_id
  contestId :: object_id
  matchId :: string
  teamName :: string
  captain :: string
  viceCaptain :: string
  players :: "player list"
  totalPoints :: int
  rank :: "int option"
  team_createdAt :: nat

record payment =
  payment_id :: object_id
  payment_userId :: object_id
  orderId :: string
  paymentId :: "string option"
  amount :: int
  status :: string
  payment_createdAt :: nat

text \<open>
  The database: the \<^verbatim>\<open>User\<close>, \<^verbatim>\<open>Contest\<close>, \<^verbatim>\<open>Team\<close> and \<^verbatim>\<open>Payment\<close> collections.
  The \<^verbatim>\<open>Match\<close> collection is read by \<^verbatim>\<open>GET /api/matches\<close> only and is left out.
\<close>

record db =
  users :: "user list"
  contests :: "contest list"
  teams :: "team list"
  payments :: "payment list"

subsection \<open>Responses\<close>

text \<open>
  \<open>TypeError_null p\<close> is the exception JavaScript throws on reading property \<open>p\<close> of
  \<^verbatim>\<open>null\<close>; \<open>GatewayError\<close> is whatever \<^verbatim>\<open>razorpay.orders.create\<close> throws. A handler's
  \<^verbatim>\<open>catch\<close> block answers with the exception's message (\<open>Thrown\<close>).
\<close>

datatype js_exception = TypeError_null string | GatewayError

text \<open>One entry of the leaderboard: the team document and its populated owner's name.\<close>

record leaderboard_entry =
  entry_team :: team
  entry_userName :: "string option"

datatype body =
    Error string
  | Thrown js_exception
  | Success string
  | UserCreated object_id string string int
  | OrderCreated string int string
  | TeamCreated object_id string
  | Teams "leaderboard_entry list"

datatype response = Response nat body

section \<open>Storage operations\<close>

text \<open>
  \<^verbatim>\<open>Model.findByIdAndUpdate\<close> and \<^verbatim>\<open>doc.save()\<close> on a stored document change the one
  document that matches: the first in the collection.
\<close>

fun update_first :: "('a \<Rightarrow> bool) \<Rightarrow> ('a \<Rightarrow> 'a) \<Rightarrow> 'a list \<Rightarrow> 'a list" where
  "update_first P f [] = []"
| "update_first P f (x # xs) = (if P x then f x # xs else x # update_first P f xs)"

definition findUserById :: "object_id \<Rightarrow> user list \<Rightarrow> user option" where
  "findUserById i us = find (\<lambda>u. user_id u = i) us"

definition findContestById :: "object_id \<Rightarrow> contest list \<Rightarrow> contest option" where
  "findContestById i cs = find (\<lambda>c. contest_id c = i) cs"

definition userFindByIdAndUpdate :: "object_id \<Rightarrow> (user \<Rightarrow> user) \<Rightarrow> user list \<Rightarrow> user list" where
  "userFindByIdAndUpdate i f us = update_first (\<lambda>u. user_id u = i) f us"

definition contestFindByIdAndUpdate ::
  "object_id \<Rightarrow> (contest \<Rightarrow> contest) \<Rightarrow> contest list \<Rightarrow> contest list" where
  "contestFindByIdAndUpdate i f cs = update_first (\<lambda>c. contest_id c = i) f cs"

definition payment_save :: "payment \<Rightarrow> payment list \<Rightarrow> payment list" where
  "payment_save p ps = update_first (\<lambda>q. payment_id q = payment_id p) (\<lambda>_. p) ps"

section \<open>Route handlers\<close>

subsection \<open>The authentication middleware\<close>

text \<open>
  The argument is the \<^verbatim>\<open>userId\<close> of the verified token, \<open>None\<close> when the header is
  missing or \<^verbatim>\<open>jwt.verify\<close> throws. The result is \<^verbatim>\<open>req.user\<close>; \<open>None\<close> stands for the
  401 answer.
\<close>

definition authenticate :: "db \<Rightarrow> object_id option \<Rightarrow> user option" where
  "authenticate s token =
     (case token of
        None \<Rightarrow> None
      | Some decoded_userId \<Rightarrow> findUserById decoded_userId (users s))"

definition unauthenticated :: response where
  "unauthenticated = Response 401 (Error ''Please authenticate'')"

subsection \<open>POST /api/register\<close>

text \<open>\<open>hashedPassword\<close> is the result of \<^verbatim>\<open>bcrypt.hash\<close>; the token of the answer is left out.\<close>

definition register ::
  "db \<Rightarrow> object_id \<Rightarrow> nat \<Rightarrow> string \<Rightarrow> string \<Rightarrow> string \<Rightarrow> string \<Rightarrow> db \<times> response" where
  "register s new_id now nm em ph hashedPassword =
     (case find (\<lambda>u. email u = em) (users s) of
        Some existingUser \<Rightarrow> (s, Response 400 (Error ''User already exists''))
      | None \<Rightarrow>
          (let u = \<lparr>user_id = new_id, name = nm, email = em, phone = ph,
                    password = hashedPassword, balance = 100, totalWinning = 0,
                    totalContests = 0, kycVerified = False, user_createdAt = now\<rparr>
           in (s\<lparr>users := users s @ [u]\<rparr>,
               Response 201 (UserCreated (user_id u) (name u) (email u) (balance u)))))"

subsection \<open>POST /api/create-order\<close>

text \<open>
  \<open>gateway\<close> stands for \<^verbatim>\<open>razorpay.orders.create\<close>: given the amount in paise it returns
  the order's id, amount and currency, or \<open>None\<close> when the call throws. The receipt
  label of the request and the key id of the answer are left out.
\<close>

definition create_order ::
  "(int \<Rightarrow> (string \<times> int \<times> string) option) \<Rightarrow> db \<Rightarrow> object_id option \<Rightarrow> object_id \<Rightarrow> nat
     \<Rightarrow> int \<Rightarrow> db \<times> response" where
  "create_order gateway s token new_id now amt =
     (case authenticate s token of
        None \<Rightarrow> (s, unauthenticated)
      | Some req_user \<Rightarrow>
          (case gateway (amt * 100) of
             None \<Rightarrow> (s, Response 500 (Thrown GatewayError))
           | Some (order_id, order_amount, order_currency) \<Rightarrow>
               (let p = \<lparr>payment_id = new_id, payment_userId = user_id req_user,
                         orderId = order_id, paymentId = None, amount = amt,
                         status = ''created'', payment_createdAt = now\<rparr>
                in (s\<lparr>payments := payments s @ [p]\<rparr>,
                    Response 200 (OrderCreated order_id order_amount order_currency)))))"

subsection \<open>POST /api/verify-payment\<close>

definition verify_payment ::
  "db \<Rightarrow> object_id option \<Rightarrow> string \<Rightarrow> string \<Rightarrow> db \<times> response" where
  "verify_payment s token order_id payment_ref =
     (case authenticate s token of
        None \<Rightarrow> (s, unauthenticated)
      | Some req_user \<Rightarrow>
          (case find (\<lambda>p. orderId p = order_id) (payments s) of
             Some found \<Rightarrow>
               (let p = found\<lparr>paymentId := Some payment_ref, status := ''completed''\<rparr>;
                    s1 = s\<lparr>payments := payment_save p (payments s)\<rparr>;
                    s2 = s1\<lparr>users := userFindByIdAndUpdate (user_id req_user)
                                       (\<lambda>u. u\<lparr>balance := balance u + amount p\<rparr>) (users s1)\<rparr>
                in (s2, Response 200 (Success ''Payment successful'')))
           | None \<Rightarrow> (s, Response 400 (Error ''Payment not found''))))"

subsection \<open>POST /api/create-team\<close>

text \<open>
  The body's fields are the arguments \<open>cid\<close> (\<^verbatim>\<open>contestId\<close>), \<open>mid\<close> (\<^verbatim>\<open>matchId\<close>),
  \<open>tname\<close>, \<open>ps\<close> (\<^verbatim>\<open>players\<close>), \<open>cap\<close> and \<open>vcap\<close>. When no contest has the id,
  \<^verbatim>\<open>Contest.findById\<close> gives \<^verbatim>\<open>null\<close> and reading \<^verbatim>\<open>contest.entryFee\<close> throws; the
  \<^verbatim>\<open>catch\<close> block answers 500.
\<close>

definition create_team ::
  "db \<Rightarrow> object_id option \<Rightarrow> object_id \<Rightarrow> nat \<Rightarrow> object_id \<Rightarrow> string \<Rightarrow> string \<Rightarrow> player list
     \<Rightarrow> string \<Rightarrow> string \<Rightarrow> db \<times> response" where
  "create_team s token new_id now cid mid tname ps cap vcap =
     (case authenticate s token of
        None \<Rightarrow> (s, unauthenticated)
      | Some req_user \<Rightarrow>
          (case findContestById cid (contests s) of
             None \<Rightarrow> (s, Response 500 (Thrown (TypeError_null ''entryFee'')))
           | Some c \<Rightarrow>
               if balance req_user < entryFee c
               then (s, Response 400 (Error ''Insufficient balance''))
               else
                 (let t = \<lparr>team_id = new_id, userId = user_id req_user, contestId = cid,
                           matchId = mid, teamName = tname, captain = cap,
                           viceCaptain = vcap, players = ps, totalPoints = 0,
                           rank = None, team_createdAt = now\<rparr>;
                      s1 = s\<lparr>teams := teams s @ [t]\<rparr>;
                      s2 = s1\<lparr>users := userFindByIdAndUpdate (user_id req_user)
                                 (\<lambda>u. u\<lparr>balance := balance u + (- entryFee c),
                                         totalContests := totalContests u + 1\<rparr>) (users s1)\<rparr>;
                      s3 = s2\<lparr>contests := contestFindByIdAndUpdate cid
                                 (\<lambda>k. k\<lparr>joinedTeams := joinedTeams k + 1\<rparr>) (contests s2)\<rparr>
                  in (s3, Response 201 (TeamCreated (team_id t) ''Team created successfully'')))))"

subsection \<open>GET /api/leaderboard/:contestId\<close>

text \<open>
  \<open>dbsort\<close> stands for the database's \<^verbatim>\<open>sort({ totalPoints: -1 })\<close>. The database
  promises a rearrangement in descending order of the key and nothing about the order of
  documents with equal keys, which is what \<open>sorts_by_totalPoints_desc\<close> says.
\<close>

definition sorts_by_totalPoints_desc :: "(team list \<Rightarrow> team list) \<Rightarrow> bool" where
  "sorts_by_totalPoints_desc dbsort =
     (\<forall>ts. mset (dbsort ts) = mset ts
         \<and> sorted_wrt (\<lambda>a b. totalPoints b \<le> totalPoints a) (dbsort ts))"

definition populate_userId :: "db \<Rightarrow> team \<Rightarrow> leaderboard_entry" where
  "populate_userId s t =
     \<lparr>entry_team = t, entry_userName = map_option name (findUserById (userId t) (users s))\<rparr>"

fun assign_ranks :: "nat \<Rightarrow> leaderboard_entry list \<Rightarrow> leaderboard_entry list" where
  "assign_ranks index [] = []"
| "assign_ranks index (e # es) =
     e\<lparr>entry_team := (entry_team e)\<lparr>rank := Some (int index + 1)\<rparr>\<rparr> # assign_ranks (Suc index) es"

definition leaderboard :: "(team list \<Rightarrow> team list) \<Rightarrow> db \<Rightarrow> object_id \<Rightarrow> db \<times> response" where
  "leaderboard dbsort s cid =
     (let found = take 100 (dbsort (filter (\<lambda>t. contestId t = cid) (teams s)));
          populated = map (populate_userId s) found
      in (s, Response 200 (Teams (assign_ranks 0 populated))))"

text \<open>The entries of an answer that carries a leaderboard.\<close>

fun response_teams :: "response \<Rightarrow> leaderboard_entry list" where
  "response_teams (Response code (Teams es)) = es"
| "response_teams (Response code other) = []"

subsection \<open>POST /api/withdraw\<close>

definition minimum_withdrawal_message :: string where
  "minimum_withdrawal_message =
     ''Minimum withdrawal '' @ [CHR 0xE2, CHR 0x82, CHR 0xB9] @ ''100''"

definition withdraw :: "db \<Rightarrow> object_id option \<Rightarrow> int \<Rightarrow> string \<Rightarrow> db \<times> response" where
  "withdraw s token amt upiId =
     (case authenticate s token of
        None \<Rightarrow> (s, unauthenticated)
      | Some req_user \<Rightarrow>
          if amt < 100 then (s, Response 400 (Error minimum_withdrawal_message))
          else if balance req_user < amt
          then (s, Response 400 (Error ''Insufficient balance''))
          else (s\<lparr>users := userFindByIdAndUpdate (user_id req_user)
                              (\<lambda>u. u\<lparr>balance := balance u + (- amt)\<rparr>) (users s)\<rparr>,
                Response 200
                  (Success ''Withdrawal request submitted. Processed within 24 hours.'')))"

text \<open>
  The route's own function, as Express calls it after the middleware has stored the loaded
  user document in \<^verbatim>\<open>req.user\<close>. Both the middleware and the route wait on the database,
  and another request can be served in between: \<open>req_user\<close> is the document as the
  middleware read it, while \<^verbatim>\<open>User.findByIdAndUpdate\<close> acts on the document as stored
  in \<open>s\<close>, the database at the time the route runs.
\<close>

definition withdraw_handler :: "db \<Rightarrow> user \<Rightarrow> int \<Rightarrow> string \<Rightarrow> db \<times> response" where
  "withdraw_handler s req_user amt upiId =
     (if amt < 100 then (s, Response 400 (Error minimum_withdrawal_message))
      else if balance req_user < amt
      then (s, Response 400 (Error ''Insufficient balance''))
      else (s\<lparr>users := userFindByIdAndUpdate (user_id req_user)
                          (\<lambda>u. u\<lparr>balance := balance u + (- amt)\<rparr>) (users s)\<rparr>,
            Response 200
              (Success ''Withdrawal request submitted. Processed within 24 hours.'')))"

section \<open>Sequences of requests\<close>

datatype request =
    Register object_id nat string string string string
  | VerifyPayment "object_id option" string string
  | CreateTeam "object_id option" object_id nat object_id string string "player list" string string
  | Withdraw "object_id option" int string

fun handle :: "db \<Rightarrow> request \<Rightarrow> db \<times> response" where
  "handle s (Register new_id now nm em ph pw) = register s new_id now nm em ph pw"
| "handle s (VerifyPayment token order_id payment_ref) = verify_payment s token order_id payment_ref"
| "handle s (CreateTeam token new_id now cid mid tname ps cap vcap) =
     create_team s token new_id now cid mid tname ps cap vcap"
| "handle s (Withdraw token amt upiId) = withdraw s token amt upiId"

text \<open>The states a sequence of requests goes through, the first one included.\<close>

fun observable_states :: "db \<Rightarrow> request list \<Rightarrow> db list" where
  "observable_states s [] = [s]"
| "observable_states s (r # rs) = s # observable_states (fst (handle s r)) rs"

text \<open>State predicates: no negative balance, no negative recorded amount, no negative count.\<close>

definition balances_nonneg :: "db \<Rightarrow> bool" where
  "balances_nonneg s = list_all (\<lambda>u. 0 \<le> balance u) (users s)"

definition amounts_nonneg :: "db \<Rightarrow> bool" where
  "amounts_nonneg s = list_all (\<lambda>p. 0 \<le> amount p) (payments s)"

definition joinedTeams_nonneg :: "db \<Rightarrow> bool" where
  "joinedTeams_nonneg s = list_all (\<lambda>c. 0 \<le> joinedTeams c) (contests s)"

section \<open>Example databases\<close>

text \<open>
  Two accounts with the registration balance of 100, a contest with entry fee 100 and
  room for one team, and an order of 500 created by the first account.
\<close>

definition alice :: user where
  "alice = \<lparr>user_id = 1, name = ''Alice'', email = ''alice@example.com'', phone = ''111'',
            password = ''hash1'', balance = 100, totalWinning = 0, totalContests = 0,
            kycVerified = False, user_createdAt = 0\<rparr>"

definition bob :: user where
  "bob = \<lparr>user_id = 2, name = ''Bob'', email = ''bob@example.com'', phone = ''222'',
          password = ''hash2'', balance = 100, totalWinning = 0, totalContests = 0,
          kycVerified = False, user_createdAt = 1\<rparr>"

definition head_to_head :: contest where
  "head_to_head = \<lparr>contest_id = 20, contest_matchId = ''m1'', contest_name = ''Head to head'',
                   entryFee = 100, prizePool = 180, maxTeams = 1, joinedTeams = 0,
                   winningBreakup = [\<lparr>rankFrom = 1, rankTo = 1, prize = 180\<rparr>],
                   isActive = True, contest_createdAt = 2\<rparr>"

definition order_500 :: payment where
  "order_500 = \<lparr>payment_id = 10, payment_userId = 1, orderId = ''order_500'',
                paymentId = None, amount = 500, status = ''created'', payment_createdAt = 3\<rparr>"

definition db0 :: db where
  "db0 = \<lparr>users = [alice, bob], contests = [head_to_head], teams = [],
          payments = [order_500]\<rparr>"

text \<open>A database holding a payment record whose amount is negative.\<close>

definition order_negative :: payment where
  "order_negative = \<lparr>payment_id = 11, payment_userId = 1, orderId = ''order_neg'',
                     paymentId = None, amount = - 500, status = ''created'',
                     payment_createdAt = 4\<rparr>"

definition db_negative_order :: db where
  "db_negative_order = db0\<lparr>payments := [order_500, order_negative]\<rparr>"

text \<open>A contest whose entry fee is negative, a closed contest, and a full one.\<close>

definition db_negative_fee :: db where
  "db_negative_fee = db0\<lparr>contests := [head_to_head\<lparr>entryFee := - 50\<rparr>]\<rparr>"

definition db_closed_contest :: db where
  "db_closed_contest = db0\<lparr>contests := [head_to_head\<lparr>isActive := False\<rparr>]\<rparr>"

definition db_full_contest :: db where
  "db_full_contest = db0\<lparr>contests := [head_to_head\<lparr>joinedTeams := 1\<rparr>]\<rparr>"

text \<open>An account that cannot afford the contest (balance 50, entry fee 100).\<close>

definition db_short_of_funds :: db where
  "db_short_of_funds = db0\<lparr>users := [alice\<lparr>balance := 50\<rparr>, bob]\<rparr>"

text \<open>Teams of contest 20: \<open>scored_team i pts\<close> is the \<open>i\<close>-th created, with \<open>pts\<close> points.\<close>

definition scored_team :: "nat \<Rightarrow> int \<Rightarrow> team" where
  "scored_team i pts = \<lparr>team_id = 100 + i, userId = 1, contestId = 20, matchId = ''m1'',
                        teamName = ''T'', captain = ''p1'', viceCaptain = ''p2'', players = [],
                        totalPoints = pts, rank = None, team_createdAt = 10 + i\<rparr>"

definition db_tied_teams :: db where
  "db_tied_teams = db0\<lparr>teams := [scored_team 0 50, scored_team 1 70, scored_team 2 50]\<rparr>"

definition db_crowded :: db where
  "db_crowded = db0\<lparr>teams := map (\<lambda>i. scored_team i 0) [0..<101]\<rparr>"

text \<open>
  Two sorts the database may use: both give descending \<^verbatim>\<open>totalPoints\<close>; the first keeps
  documents with equal points in collection order, the second reverses them.
\<close>

definition sort_ties_oldest_first :: "team list \<Rightarrow> team list" where
  "sort_ties_oldest_first ts = sort_key (\<lambda>t. - totalPoints t) ts"

definition sort_ties_newest_first :: "team list \<Rightarrow> team list" where
  "sort_ties_newest_first ts = rev (sort_key totalPoints ts)"

section \<open>Facts about the storage operations\<close>

lemma find_update_first_same:
  "(\<And>x. P x \<Longrightarrow> P (f x)) \<Longrightarrow> find P (update_first P f xs) = map_option f (find P xs)"
  by (induction xs) auto

lemma find_update_first_other:
  "(\<And>x. P x \<Longrightarrow> \<not> Q x) \<Longrightarrow> (\<And>x. P x \<Longrightarrow> \<not> Q (f x))
     \<Longrightarrow> find Q (update_first P f xs) = find Q xs"
  by (induction xs) auto

lemma list_all_update_first:
  "list_all R xs \<Longrightarrow> (\<And>x. R x \<Longrightarrow> P x \<Longrightarrow> R (f x)) \<Longrightarrow> list_all R (update_first P f xs)"
  by (induction xs) auto

lemma map_update_first_unchanged:
  "(\<And>x. g (f x) = g x) \<Longrightarrow> map g (update_first P f xs) = map g xs"
  by (induction xs) auto

lemma length_update_first: "length (update_first P f xs) = length xs"
  by (induction xs) auto

lemma find_payment_save:
  "find Q ps = Some p \<Longrightarrow> Q p' \<Longrightarrow> payment_id p' = payment_id p
     \<Longrightarrow> find Q (payment_save p' ps) = Some p'"
  unfolding payment_save_def
proof (induction ps)
  case Nil
  then show ?case by simp
next
  case (Cons x xs)
  then show ?case by (cases "Q x") auto
qed

lemma authenticate_SomeD:
  "authenticate s tok = Some u \<Longrightarrow> tok = Some (user_id u) \<and> findUserById (user_id u) (users s) = Some u"
  by (auto simp: authenticate_def findUserById_def find_Some_iff split: option.splits)

lemma findContestById_SomeD:
  "findContestById cid cs = Some c \<Longrightarrow> contest_id c = cid"
  by (auto simp: findContestById_def find_Some_iff)

lemma verify_payment_found:
  assumes "authenticate s tok = Some u"
    and "find (\<lambda>p. orderId p = oid) (payments s) = Some p"
  shows "verify_payment s tok oid pref =
    (s\<lparr>payments := payment_save (p\<lparr>paymentId := Some pref, status := ''completed''\<rparr>) (payments s),
       users := userFindByIdAndUpdate (user_id u) (\<lambda>v. v\<lparr>balance := balance v + amount p\<rparr>) (users s)\<rparr>,
     Response 200 (Success ''Payment successful''))"
  using assms by (simp add: verify_payment_def Let_def)

lemma authenticate_after_update:
  assumes "authenticate s tok = Some u" and "\<And>v. user_id (f v) = user_id v"
    and "users s' = userFindByIdAndUpdate (user_id u) f (users s)"
  shows "authenticate s' tok = Some (f u)"
  using assms authenticate_SomeD[OF assms(1)]
  by (simp add: authenticate_def findUserById_def userFindByIdAndUpdate_def find_update_first_same)

lemma findUserById_other_after_update:
  assumes "i \<noteq> j" and "\<And>v. user_id (f v) = user_id v"
  shows "findUserById i (userFindByIdAndUpdate j f us) = findUserById i us"
  unfolding findUserById_def userFindByIdAndUpdate_def
  by (rule find_update_first_other) (use assms in auto)

lemma create_team_joined:
  assumes "authenticate s tok = Some u"
    and "findContestById cid (contests s) = Some c"
    and "entryFee c \<le> balance u"
  shows "create_team s tok nid now cid mid tn ps cap vc =
    (s\<lparr>teams := teams s @ [\<lparr>team_id = nid, userId = user_id u, contestId = cid,
                           matchId = mid, teamName = tn, captain = cap,
                           viceCaptain = vc, players = ps, totalPoints = 0,
                           rank = None, team_createdAt = now\<rparr>],
       users := userFindByIdAndUpdate (user_id u)
                  (\<lambda>v. v\<lparr>balance := balance v + (- entryFee c),
                          totalContests := totalContests v + 1\<rparr>) (users s),
       contests := contestFindByIdAndUpdate cid
                  (\<lambda>k. k\<lparr>joinedTeams := joinedTeams k + 1\<rparr>) (contests s)\<rparr>,
     Response 201 (TeamCreated nid ''Team created successfully''))"
  using assms by (simp add: create_team_def Let_def)

lemma findContestById_after_update:
  assumes "findContestById cid cs = Some c" and "\<And>k. contest_id (f k) = contest_id k"
  shows "findContestById cid (contestFindByIdAndUpdate cid f cs) = Some (f c)"
  using assms
  by (simp add: findContestById_def contestFindByIdAndUpdate_def find_update_first_same)

lemmas example_defs = alice_def bob_def head_to_head_def order_500_def db0_def
  order_negative_def db_negative_order_def db_negative_fee_def db_closed_contest_def
  db_short_of_funds_def scored_team_def db_tied_teams_def db_full_contest_def

lemmas handler_defs = authenticate_def findUserById_def findContestById_def
  userFindByIdAndUpdate_def contestFindByIdAndUpdate_def payment_save_def unauthenticated_def

section \<open>Facts about the handlers\<close>

lemmas all_handlers = register_def verify_payment_def create_team_def withdraw_def Let_def

text \<open>A withdrawal served without interruption is the middleware followed by the route.\<close>

lemma withdraw_runs_handler:
  "withdraw s tok amt upiId =
     (case authenticate s tok of
        None \<Rightarrow> (s, unauthenticated)
      | Some req_user \<Rightarrow> withdraw_handler s req_user amt upiId)"
  by (simp add: withdraw_def withdraw_handler_def split: option.splits)

lemma create_team_contest_absent:
  assumes "authenticate s tok = Some u" and "findContestById cid (contests s) = None"
  shows "create_team s tok nid now cid mid tn ps cap vc
           = (s, Response 500 (Thrown (TypeError_null ''entryFee'')))"
  using assms by (simp add: create_team_def)

lemma authenticate_after_join:
  assumes "authenticate s tok = Some u"
    and "findContestById cid (contests s) = Some c"
    and "entryFee c \<le> balance u"
  shows "authenticate (fst (create_team s tok nid now cid mid tn ps cap vc)) tok
           = Some (u\<lparr>balance := balance u - entryFee c, totalContests := totalContests u + 1\<rparr>)"
proof -
  have "authenticate (fst (create_team s tok nid now cid mid tn ps cap vc)) tok
          = Some (u\<lparr>balance := balance u + (- entryFee c), totalContests := totalContests u + 1\<rparr>)"
    by (rule authenticate_after_update[OF assms(1)]) (simp_all add: create_team_joined[OF assms])
  then show ?thesis by simp
qed

lemma contest_after_join:
  assumes "authenticate s tok = Some u"
    and "findContestById cid (contests s) = Some c"
    and "entryFee c \<le> balance u"
  shows "findContestById cid (contests (fst (create_team s tok nid now cid mid tn ps cap vc)))
           = Some (c\<lparr>joinedTeams := joinedTeams c + 1\<rparr>)"
  by (simp add: create_team_joined[OF assms] findContestById_after_update[OF assms(2)])

lemma list_all_update_found:
  "list_all R xs \<Longrightarrow> find P xs = Some u \<Longrightarrow> R (f u) \<Longrightarrow> list_all R (update_first P f xs)"
  by (induction xs) (auto split: if_splits)

lemma find_Some_list_all: "find P xs = Some x \<Longrightarrow> list_all R xs \<Longrightarrow> R x"
  by (auto simp: find_Some_iff list_all_length)

text \<open>What each handler can do to the database, case by case.\<close>

lemma register_users:
  "users (fst (register s nid now nm em ph pw)) = users s
   \<or> users (fst (register s nid now nm em ph pw))
        = users s @ [\<lparr>user_id = nid, name = nm, email = em, phone = ph, password = pw,
                       balance = 100, totalWinning = 0, totalContests = 0,
                       kycVerified = False, user_createdAt = now\<rparr>]"
  by (simp add: register_def Let_def split: option.splits)

lemma register_rest:
  "payments (fst (register s nid now nm em ph pw)) = payments s"
  "contests (fst (register s nid now nm em ph pw)) = contests s"
  "teams (fst (register s nid now nm em ph pw)) = teams s"
  by (simp_all add: register_def Let_def split: option.splits)

lemma verify_payment_cases:
  obtains (unchanged) "fst (verify_payment s tok oid pref) = s"
  | (credited) u p where "authenticate s tok = Some u"
      "find (\<lambda>p. orderId p = oid) (payments s) = Some p"
proof (cases "authenticate s tok")
  case None
  then have "fst (verify_payment s tok oid pref) = s" by (simp add: verify_payment_def)
  then show ?thesis by (rule unchanged)
next
  case (Some u)
  show ?thesis
  proof (cases "find (\<lambda>p. orderId p = oid) (payments s)")
    case None
    with Some have "fst (verify_payment s tok oid pref) = s" by (simp add: verify_payment_def)
    then show ?thesis by (rule unchanged)
  next
    case (Some p)
    with \<open>authenticate s tok = Some u\<close> show ?thesis by (rule credited)
  qed
qed

lemma create_team_cases:
  obtains (unchanged) "fst (create_team s tok nid now cid mid tn ps cap vc) = s"
  | (joined) u c where "authenticate s tok = Some u"
      "findContestById cid (contests s) = Some c" "entryFee c \<le> balance u"
proof (cases "authenticate s tok")
  case None
  then have "fst (create_team s tok nid now cid mid tn ps cap vc) = s"
    by (simp add: create_team_def)
  then show ?thesis by (rule unchanged)
next
  case auth: (Some u)
  show ?thesis
  proof (cases "findContestById cid (contests s)")
    case None
    with auth have "fst (create_team s tok nid now cid mid tn ps cap vc) = s"
      by (simp add: create_team_def)
    then show ?thesis by (rule unchanged)
  next
    case (Some c)
    show ?thesis
    proof (cases "balance u < entryFee c")
      case True
      with auth Some have "fst (create_team s tok nid now cid mid tn ps cap vc) = s"
        by (simp add: create_team_def)
      then show ?thesis by (rule unchanged)
    next
      case False
      then have "entryFee c \<le> balance u" by simp
      with auth Some show ?thesis by (rule joined)
    qed
  qed
qed

lemma withdraw_cases:
  obtains (unchanged) "fst (withdraw s tok amt upi) = s"
  | (debited) u where "authenticate s tok = Some u" "100 \<le> amt" "amt \<le> balance u"
      "fst (withdraw s tok amt upi) = s\<lparr>users := userFindByIdAndUpdate (user_id u)
                             (\<lambda>v. v\<lparr>balance := balance v + (- amt)\<rparr>) (users s)\<rparr>"
proof (cases "authenticate s tok")
  case None
  then have "fst (withdraw s tok amt upi) = s" by (simp add: withdraw_def)
  then show ?thesis by (rule unchanged)
next
  case (Some u)
  show ?thesis
  proof (cases "100 \<le> amt \<and> amt \<le> balance u")
    case True
    with Some show ?thesis by (intro debited[of u]) (simp_all add: withdraw_def)
  next
    case False
    with Some have "fst (withdraw s tok amt upi) = s" by (auto simp: withdraw_def)
    then show ?thesis by (rule unchanged)
  qed
qed

section \<open>Payment confirmation\<close>

text \<open>
  Claim C1 (as amended). \<^verbatim>\<open>POST /api/verify-payment\<close> never reads the record's status.
  For an authenticated caller and an order reference that is found, every call answers
  success and adds the recorded amount to the caller's balance, also when the record is
  already completed: after the first call the record found under the order reference has
  status \<^verbatim>\<open>completed\<close>, and the second call with the same order and payment reference
  answers success and credits the amount again, so the two calls raise the balance by
  twice the recorded amount.
\<close>

theorem verify_payment_credits_on_every_call:
  assumes "authenticate s tok = Some u"
    and "find (\<lambda>p. orderId p = oid) (payments s) = Some p"
  shows "snd (verify_payment s tok oid pref) = Response 200 (Success ''Payment successful'')
    \<and> authenticate (fst (verify_payment s tok oid pref)) tok
         = Some (u\<lparr>balance := balance u + amount p\<rparr>)
    \<and> find (\<lambda>p. orderId p = oid) (payments (fst (verify_payment s tok oid pref)))
         = Some (p\<lparr>paymentId := Some pref, status := ''completed''\<rparr>)
    \<and> snd (verify_payment (fst (verify_payment s tok oid pref)) tok oid pref)
         = Response 200 (Success ''Payment successful'')
    \<and> authenticate (fst (verify_payment (fst (verify_payment s tok oid pref)) tok oid pref)) tok
         = Some (u\<lparr>balance := balance u + 2 * amount p\<rparr>)"
proof -
  let ?p' = "p\<lparr>paymentId := Some pref, status := ''completed''\<rparr>"
  let ?u' = "u\<lparr>balance := balance u + amount p\<rparr>"
  let ?s1 = "fst (verify_payment s tok oid pref)"
  let ?s2 = "fst (verify_payment ?s1 tok oid pref)"
  note first = verify_payment_found[OF assms, of pref]
  have auth1: "authenticate ?s1 tok = Some ?u'"
    by (rule authenticate_after_update[OF assms(1)]) (simp_all add: first)
  have found1: "find (\<lambda>p. orderId p = oid) (payments ?s1) = Some ?p'"
  proof -
    have "orderId p = oid" using assms(2) by (auto simp: find_Some_iff)
    then have "find (\<lambda>p. orderId p = oid) (payment_save ?p' (payments s)) = Some ?p'"
      by (intro find_payment_save[OF assms(2)]) simp_all
    then show ?thesis by (simp add: first)
  qed
  note second = verify_payment_found[OF auth1 found1, of pref]
  have "authenticate ?s2 tok = Some (?u'\<lparr>balance := balance ?u' + amount ?p'\<rparr>)"
    by (rule authenticate_after_update[OF auth1]) (simp_all add: second)
  then have auth2: "authenticate ?s2 tok = Some (u\<lparr>balance := balance u + 2 * amount p\<rparr>)"
    by simp
  show ?thesis using first second auth1 found1 auth2 by simp
qed

text \<open>The scenario of the specification: an order of 500 confirmed twice by its owner.\<close>

theorem verify_payment_credits_on_every_call_witness:
  "authenticate db0 (Some 1) = Some alice
   \<and> find (\<lambda>p. orderId p = ''order_500'') (payments db0) = Some order_500
   \<and> authenticate (fst (verify_payment db0 (Some 1) ''order_500'' ''pay_1'')) (Some 1)
       = Some (alice\<lparr>balance := 600\<rparr>)
   \<and> authenticate (fst (verify_payment (fst (verify_payment db0 (Some 1) ''order_500'' ''pay_1''))
         (Some 1) ''order_500'' ''pay_1'')) (Some 1)
       = Some (alice\<lparr>balance := 1100\<rparr>)"
proof -
  have a: "authenticate db0 (Some 1) = Some alice"
    by (simp add: handler_defs example_defs)
  have f: "find (\<lambda>p. orderId p = ''order_500'') (payments db0) = Some order_500"
    by (simp add: example_defs)
  have "balance alice = 100" "amount order_500 = 500" by (simp_all add: example_defs)
  with verify_payment_credits_on_every_call[OF a f, of "''pay_1''"] a f show ?thesis
    by simp
qed

text \<open>
  Claim C1 as stated fails: with balances 100 and 100 and an order of 500, the first
  confirmation completes the record and brings the caller to 600; the second, on the
  completed record, answers success and brings the caller to 1100.
\<close>

theorem confirmed_payment_credited_again:
  "status (hd (payments (fst (verify_payment db0 (Some 1) ''order_500'' ''pay_1'')))) = ''completed''
   \<and> map balance (users (fst (verify_payment db0 (Some 1) ''order_500'' ''pay_1''))) = [600, 100]
   \<and> snd (verify_payment (fst (verify_payment db0 (Some 1) ''order_500'' ''pay_1''))
        (Some 1) ''order_500'' ''pay_1'') = Response 200 (Success ''Payment successful'')
   \<and> map balance (users (fst (verify_payment (fst (verify_payment db0 (Some 1) ''order_500'' ''pay_1''))
        (Some 1) ''order_500'' ''pay_1''))) = [1100, 100]"
  by (simp add: verify_payment_def Let_def handler_defs example_defs)

section \<open>Joining a contest\<close>



section \<open>Whose balance a confirmation credits\<close>

text \<open>
  Claim C6. \<^verbatim>\<open>POST /api/verify-payment\<close> credits the authenticated caller
  (\<^verbatim>\<open>req.user._id\<close>), not the account the payment record refers to: when the two differ,
  the caller's balance grows by the recorded amount and the record owner's document, the
  balance with it, is unchanged.
\<close>
theorem verify_payment_credits_caller:
  assumes "authenticate s tok = Some u"
    and "find (\<lambda>p. orderId p = oid) (payments s) = Some p"
    and "payment_userId p \<noteq> user_id u"
  shows "authenticate (fst (verify_payment s tok oid pref)) tok
           = Some (u\<lparr>balance := balance u + amount p\<rparr>)
    \<and> findUserById (payment_userId p) (users (fst (verify_payment s tok oid pref)))
           = findUserById (payment_userId p) (users s)"
proof -
  note post = verify_payment_found[OF assms(1,2), of pref]
  have "authenticate (fst (verify_payment s tok oid pref)) tok
          = Some (u\<lparr>balance := balance u + amount p\<rparr>)"
    by (rule authenticate_after_update[OF assms(1)]) (simp_all add: post)
  moreover have "findUserById (payment_userId p) (users (fst (verify_payment s tok oid pref)))
          = findUserById (payment_userId p) (users s)"
    using assms(3) by (simp add: post findUserById_other_after_update)
  ultimately show ?thesis by simp
qed

text \<open>The second account confirms the order the first account created.\<close>

theorem verify_payment_credits_caller_witness:
  "authenticate db0 (Some 2) = Some bob
   \<and> find (\<lambda>p. orderId p = ''order_500'') (payments db0) = Some order_500
   \<and> payment_userId order_500 \<noteq> user_id bob
   \<and> authenticate (fst (verify_payment db0 (Some 2) ''order_500'' ''pay_1'')) (Some 2)
       = Some (bob\<lparr>balance := 600\<rparr>)
   \<and> findUserById 1 (users (fst (verify_payment db0 (Some 2) ''order_500'' ''pay_1'')))
       = Some alice"
proof -
  have a: "authenticate db0 (Some 2) = Some bob"
    by (simp add: handler_defs example_defs)
  have f: "find (\<lambda>p. orderId p = ''order_500'') (payments db0) = Some order_500"
    by (simp add: example_defs)
  have n: "payment_userId order_500 \<noteq> user_id bob"
    by (simp add: example_defs)
  have v: "balance bob = 100" "amount order_500 = 500" "payment_userId order_500 = 1"
    "findUserById 1 (users db0) = Some alice"
    by (simp_all add: handler_defs example_defs)
  from verify_payment_credits_caller[OF a f n, of "''pay_1''"] a f n v show ?thesis by simp
qed

section \<open>Withdrawal\<close>




section \<open>The submitted team is not validated\<close>

text \<open>
  Claim C8 (as amended). \<^verbatim>\<open>POST /api/create-team\<close> checks nothing about the submitted
  team. Whatever the roster, the captain and the vice-captain are, a call by an
  authenticated account whose balance covers the entry fee of an existing contest answers
  201, stores the team exactly as submitted, debits the entry fee, and increments the
  account's \<^verbatim>\<open>totalContests\<close> and the contest's \<^verbatim>\<open>joinedTeams\<close>.
\<close>
theorem create_team_accepts_any_roster:
  assumes "authenticate s tok = Some u"
    and "findContestById cid (contests s) = Some c"
    and "entryFee c \<le> balance u"
  shows "snd (create_team s tok nid now cid mid tn ps cap vc)
           = Response 201 (TeamCreated nid ''Team created successfully'')
    \<and> teams (fst (create_team s tok nid now cid mid tn ps cap vc))
           = teams s @ [\<lparr>team_id = nid, userId = user_id u, contestId = cid,
                          matchId = mid, teamName = tn, captain = cap,
                          viceCaptain = vc, players = ps, totalPoints = 0,
                          rank = None, team_createdAt = now\<rparr>]
    \<and> authenticate (fst (create_team s tok nid now cid mid tn ps cap vc)) tok
           = Some (u\<lparr>balance := balance u - entryFee c, totalContests := totalContests u + 1\<rparr>)
    \<and> findContestById cid (contests (fst (create_team s tok nid now cid mid tn ps cap vc)))
           = Some (c\<lparr>joinedTeams := joinedTeams c + 1\<rparr>)"
  using authenticate_after_join[OF assms] contest_after_join[OF assms]
  by (simp add: create_team_joined[OF assms])

text \<open>An empty roster whose captain and vice-captain are the same absent player.\<close>

theorem create_team_accepts_any_roster_witness:
  "authenticate db0 (Some 1) = Some alice
   \<and> findContestById 20 (contests db0) = Some head_to_head
   \<and> entryFee head_to_head \<le> balance alice
   \<and> snd (create_team db0 (Some 1) 30 5 20 ''m1'' ''A'' [] ''nobody'' ''nobody'')
       = Response 201 (TeamCreated 30 ''Team created successfully'')
   \<and> map players (teams (fst (create_team db0 (Some 1) 30 5 20 ''m1'' ''A'' [] ''nobody'' ''nobody''))) = [[]]
   \<and> authenticate (fst (create_team db0 (Some 1) 30 5 20 ''m1'' ''A'' [] ''nobody'' ''nobody'')) (Some 1)
       = Some (alice\<lparr>balance := 0, totalContests := 1\<rparr>)"
proof -
  have a: "authenticate db0 (Some 1) = Some alice"
    by (simp add: handler_defs example_defs)
  have c: "findContestById 20 (contests db0) = Some head_to_head"
    by (simp add: handler_defs example_defs)
  have b: "entryFee head_to_head \<le> balance alice"
    by (simp add: example_defs)
  have v: "balance alice = 100" "entryFee head_to_head = 100" "totalContests alice = 0" "teams db0 = []"
    by (simp_all add: example_defs)
  from create_team_accepts_any_roster[OF a c b, of 30 5 "''m1''" "''A''" "[]" "''nobody''" "''nobody''"]
    a c b v show ?thesis by simp
qed

text \<open>
  Claim C8 as stated fails: the team with an empty roster and one absent player as both
  captain and vice-captain is stored, and the fee is taken.
\<close>

theorem malformed_team_accepted:
  "create_team db0 (Some 1) 30 5 20 ''m1'' ''A'' [] ''nobody'' ''nobody''
     = (db0\<lparr>teams := [\<lparr>team_id = 30, userId = 1, contestId = 20, matchId = ''m1'',
                        teamName = ''A'', captain = ''nobody'', viceCaptain = ''nobody'',
                        players = [], totalPoints = 0, rank = None, team_createdAt = 5\<rparr>],
            users := [alice\<lparr>balance := 0, totalContests := 1\<rparr>, bob],
            contests := [head_to_head\<lparr>joinedTeams := 1\<rparr>]\<rparr>,
        Response 201 (TeamCreated 30 ''Team created successfully''))"
  by (simp add: create_team_def Let_def handler_defs example_defs)

section \<open>A contest that does not exist\<close>

text \<open>
  Claim C10. For a contest id that no contest has, the handler reads \<^verbatim>\<open>entryFee\<close> of
  \<^verbatim>\<open>null\<close>; the exception reaches the \<^verbatim>\<open>catch\<close> block, which answers 500 with the
  exception's message. The database is unchanged, but the answer is the generic internal
  error, not a contest-not-found error.
\<close>
theorem create_team_unknown_contest:
  "create_team db0 (Some 1) 30 5 999 ''m1'' ''A'' [] ''p1'' ''p2''
     = (db0, Response 500 (Thrown (TypeError_null ''entryFee'')))"
  by (simp add: create_team_def handler_defs example_defs)

section \<open>Balances over sequences of requests\<close>

lemma handle_keeps_nonneg:
  assumes "balances_nonneg s" and "amounts_nonneg s"
  shows "balances_nonneg (fst (handle s r)) \<and> amounts_nonneg (fst (handle s r))"
proof (cases r)
  case (Register nid now nm em ph pw)
  from register_users[of s nid now nm em ph pw] assms show ?thesis
    by (auto simp: Register balances_nonneg_def amounts_nonneg_def register_rest)
next
  case (VerifyPayment tok oid pref)
  show ?thesis
  proof (cases rule: verify_payment_cases[where s=s and tok=tok and oid=oid and pref=pref])
    case unchanged
    with assms show ?thesis by (simp add: VerifyPayment)
  next
    case (credited u p)
    note post = verify_payment_found[OF credited, of pref]
    have amt: "0 \<le> amount p"
      using find_Some_list_all[OF credited(2)] assms(2) by (simp add: amounts_nonneg_def)
    have found: "find (\<lambda>v. user_id v = user_id u) (users s) = Some u"
      using authenticate_SomeD[OF credited(1)] by (simp add: findUserById_def)
    have "list_all (\<lambda>u. 0 \<le> balance u)
            (update_first (\<lambda>v. user_id v = user_id u) (\<lambda>v. v\<lparr>balance := balance v + amount p\<rparr>) (users s))"
      using assms(1) amt found find_Some_list_all[OF found, of "\<lambda>u. 0 \<le> balance u"]
      by (intro list_all_update_found[OF _ found]) (simp_all add: balances_nonneg_def)
    moreover have "list_all (\<lambda>p. 0 \<le> amount p)
            (payment_save (p\<lparr>paymentId := Some pref, status := ''completed''\<rparr>) (payments s))"
      unfolding payment_save_def using assms(2) amt
      by (intro list_all_update_first) (simp_all add: amounts_nonneg_def)
    ultimately show ?thesis
      by (simp add: VerifyPayment post balances_nonneg_def amounts_nonneg_def userFindByIdAndUpdate_def)
  qed
next
  case (CreateTeam tok nid now cid mid tn ps cap vc)
  show ?thesis
  proof (cases rule: create_team_cases[where s=s and tok=tok and nid=nid and now=now and cid=cid and mid=mid and tn=tn and ps=ps and cap=cap and vc=vc])
    case unchanged
    with assms show ?thesis by (simp add: CreateTeam)
  next
    case (joined u c)
    note post = create_team_joined[OF joined, of nid now mid tn ps cap vc]
    have found: "find (\<lambda>v. user_id v = user_id u) (users s) = Some u"
      using authenticate_SomeD[OF joined(1)] by (simp add: findUserById_def)
    have "list_all (\<lambda>u. 0 \<le> balance u)
            (update_first (\<lambda>v. user_id v = user_id u)
               (\<lambda>v. v\<lparr>balance := balance v + (- entryFee c), totalContests := totalContests v + 1\<rparr>) (users s))"
      using assms(1) joined(3)
      by (intro list_all_update_found[OF _ found]) (simp_all add: balances_nonneg_def)
    with assms(2) show ?thesis
      by (simp add: CreateTeam post balances_nonneg_def amounts_nonneg_def userFindByIdAndUpdate_def)
  qed
next
  case (Withdraw tok amt upi)
  show ?thesis
  proof (cases rule: withdraw_cases[where s=s and tok=tok and amt=amt and upi=upi])
    case unchanged
    with assms show ?thesis by (simp add: Withdraw)
  next
    case (debited u)
    have found: "find (\<lambda>v. user_id v = user_id u) (users s) = Some u"
      using authenticate_SomeD[OF debited(1)] by (simp add: findUserById_def)
    have "list_all (\<lambda>u. 0 \<le> balance u)
            (update_first (\<lambda>v. user_id v = user_id u) (\<lambda>v. v\<lparr>balance := balance v + (- amt)\<rparr>) (users s))"
      using assms(1) debited(3)
      by (intro list_all_update_found[OF _ found]) (simp_all add: balances_nonneg_def)
    with assms(2) show ?thesis
      by (simp add: Withdraw debited(4) balances_nonneg_def amounts_nonneg_def userFindByIdAndUpdate_def)
  qed
qed

text \<open>
  Served one after the other, the requests keep every balance non-negative, from any
  database in which no balance and no recorded amount is negative: the guards of
  create-team and withdraw then read the stored balance.
\<close>

lemma balances_stay_nonneg:
  assumes "balances_nonneg s" and "amounts_nonneg s"
  shows "list_all balances_nonneg (observable_states s rs)"
  using assms
proof (induction rs arbitrary: s)
  case Nil
  then show ?case by simp
next
  case (Cons r rs)
  from handle_keeps_nonneg[OF Cons.prems, of r] Cons.IH[of "fst (handle s r)"] Cons.prems(1)
  show ?case by simp
qed

text \<open>A registration, a confirmation of 500, a join for 100 and a withdrawal of 600.\<close>

lemma balances_stay_nonneg_example:
  "balances_nonneg db0 \<and> amounts_nonneg db0
   \<and> list_all balances_nonneg
       (observable_states db0
          [Register 3 7 ''Carol'' ''carol@example.com'' ''333'' ''hash3'',
           VerifyPayment (Some 1) ''order_500'' ''pay_1'',
           CreateTeam (Some 2) 30 8 20 ''m1'' ''B'' [] ''p1'' ''p2'',
           Withdraw (Some 1) 600 ''alice@upi''])
   \<and> map (\<lambda>s. map balance (users s))
       (observable_states db0
          [Register 3 7 ''Carol'' ''carol@example.com'' ''333'' ''hash3'',
           VerifyPayment (Some 1) ''order_500'' ''pay_1'',
           CreateTeam (Some 2) 30 8 20 ''m1'' ''B'' [] ''p1'' ''p2'',
           Withdraw (Some 1) 600 ''alice@upi''])
       = [[100, 100], [100, 100, 100], [600, 100, 100], [600, 0, 100], [0, 0, 100]]"
proof -
  let ?rs = "[Register 3 7 ''Carol'' ''carol@example.com'' ''333'' ''hash3'',
           VerifyPayment (Some 1) ''order_500'' ''pay_1'',
           CreateTeam (Some 2) 30 8 20 ''m1'' ''B'' [] ''p1'' ''p2'',
           Withdraw (Some 1) 600 ''alice@upi'']"
  have b: "balances_nonneg db0" by (simp add: balances_nonneg_def example_defs)
  have a: "amounts_nonneg db0" by (simp add: amounts_nonneg_def example_defs)
  have inv: "list_all balances_nonneg (observable_states db0 ?rs)"
    by (rule balances_stay_nonneg[OF b a])
  have "map (\<lambda>s. map balance (users s)) (observable_states db0 ?rs)
       = [[100, 100], [100, 100, 100], [600, 100, 100], [600, 0, 100], [0, 0, 100]]"
    by (simp add: all_handlers handler_defs example_defs)
  with inv b a show ?thesis by blast
qed

text \<open>
  Claim C3. No operation should ever drive a balance negative, and the guards of
  create-team and withdraw compare the balance with the amount for that purpose. But the
  balance they compare is the one of \<^verbatim>\<open>req.user\<close>, read by the middleware, and the
  debit is a \<^verbatim>\<open>$inc\<close> on the stored document. Two withdrawals of 100 by an account
  holding 100, both authenticated before either route runs: each route sees a balance
  of 100, each answers success, and the stored balance ends at \<open>-100\<close>.
\<close>

theorem interleaved_withdrawals_overdraw:
  "authenticate db0 (Some 1) = Some alice
   \<and> balance alice = 100
   \<and> withdraw_handler db0 alice 100 ''alice@upi''
       = (db0\<lparr>users := [alice\<lparr>balance := 0\<rparr>, bob]\<rparr>,
          Response 200 (Success ''Withdrawal request submitted. Processed within 24 hours.''))
   \<and> withdraw_handler (db0\<lparr>users := [alice\<lparr>balance := 0\<rparr>, bob]\<rparr>) alice 100 ''alice@upi''
       = (db0\<lparr>users := [alice\<lparr>balance := - 100\<rparr>, bob]\<rparr>,
          Response 200 (Success ''Withdrawal request submitted. Processed within 24 hours.''))
   \<and> balances_nonneg db0
   \<and> \<not> balances_nonneg (db0\<lparr>users := [alice\<lparr>balance := - 100\<rparr>, bob]\<rparr>)"
  by (simp add: withdraw_handler_def balances_nonneg_def handler_defs example_defs)

section \<open>Amounts that are not positive\<close>

text \<open>
  Claim C5 (as amended). For an authenticated caller and every amount \<open>\<le> 0\<close>: a
  withdrawal of that amount is refused (it is under the minimum of 100) and the database
  is unchanged; but confirming a payment whose recorded amount is \<open>\<le> 0\<close> answers success
  and changes the balance by exactly that amount, and joining a contest whose entry fee
  is \<open>\<le> 0\<close> and not above the balance answers 201 and changes the balance by exactly
  minus the fee. In the last two the balance is unchanged only when the amount is 0.
\<close>

theorem non_positive_amounts_are_applied:
  assumes "authenticate s tok = Some u"
  shows "(find (\<lambda>p. orderId p = oid) (payments s) = Some p \<and> amount p \<le> 0 \<longrightarrow>
            snd (verify_payment s tok oid pref) = Response 200 (Success ''Payment successful'')
          \<and> authenticate (fst (verify_payment s tok oid pref)) tok
              = Some (u\<lparr>balance := balance u + amount p\<rparr>))
    \<and> (findContestById cid (contests s) = Some c \<and> entryFee c \<le> 0 \<and> entryFee c \<le> balance u \<longrightarrow>
            snd (create_team s tok nid now cid mid tn ps cap vc)
              = Response 201 (TeamCreated nid ''Team created successfully'')
          \<and> authenticate (fst (create_team s tok nid now cid mid tn ps cap vc)) tok
              = Some (u\<lparr>balance := balance u - entryFee c, totalContests := totalContests u + 1\<rparr>))
    \<and> (amt \<le> 0 \<longrightarrow>
            withdraw s tok amt upiId = (s, Response 400 (Error minimum_withdrawal_message)))"
proof (intro conjI impI; (elim conjE)?)
  assume found: "find (\<lambda>p. orderId p = oid) (payments s) = Some p"
  note post = verify_payment_found[OF assms found, of pref]
  show "snd (verify_payment s tok oid pref) = Response 200 (Success ''Payment successful'')"
    by (simp add: post)
  show "authenticate (fst (verify_payment s tok oid pref)) tok
          = Some (u\<lparr>balance := balance u + amount p\<rparr>)"
    by (rule authenticate_after_update[OF assms]) (simp_all add: post)
next
  assume c: "findContestById cid (contests s) = Some c" and fee: "entryFee c \<le> balance u"
  show "snd (create_team s tok nid now cid mid tn ps cap vc)
          = Response 201 (TeamCreated nid ''Team created successfully'')"
    by (simp add: create_team_joined[OF assms c fee])
  show "authenticate (fst (create_team s tok nid now cid mid tn ps cap vc)) tok
          = Some (u\<lparr>balance := balance u - entryFee c, totalContests := totalContests u + 1\<rparr>)"
    by (rule authenticate_after_join[OF assms c fee])
next
  assume "amt \<le> 0"
  with assms show "withdraw s tok amt upiId = (s, Response 400 (Error minimum_withdrawal_message))"
    by (simp add: withdraw_def)
qed

text \<open>
  An order of \<open>-500\<close>, an entry fee of \<open>-50\<close> and a withdrawal of \<open>-5\<close>, for an account
  holding 100.
\<close>

theorem non_positive_amounts_are_applied_witness:
  "authenticate db_negative_order (Some 2) = Some bob
   \<and> find (\<lambda>p. orderId p = ''order_neg'') (payments db_negative_order) = Some order_negative
   \<and> amount order_negative \<le> 0
   \<and> authenticate (fst (verify_payment db_negative_order (Some 2) ''order_neg'' ''pay_2'')) (Some 2)
       = Some (bob\<lparr>balance := - 400\<rparr>)
   \<and> authenticate db_negative_fee (Some 2) = Some bob
   \<and> findContestById 20 (contests db_negative_fee) = Some (head_to_head\<lparr>entryFee := - 50\<rparr>)
   \<and> authenticate (fst (create_team db_negative_fee (Some 2) 30 5 20 ''m1'' ''B'' [] ''p1'' ''p2'')) (Some 2)
       = Some (bob\<lparr>balance := 150, totalContests := 1\<rparr>)
   \<and> withdraw db_negative_fee (Some 2) (- 5) ''bob@upi''
       = (db_negative_fee, Response 400 (Error minimum_withdrawal_message))"
proof -
  have a: "authenticate db_negative_order (Some 2) = Some bob"
    by (simp add: handler_defs example_defs)
  have f: "find (\<lambda>p. orderId p = ''order_neg'') (payments db_negative_order) = Some order_negative"
    by (simp add: example_defs)
  have a': "authenticate db_negative_fee (Some 2) = Some bob"
    by (simp add: handler_defs example_defs)
  have c: "findContestById 20 (contests db_negative_fee) = Some (head_to_head\<lparr>entryFee := - 50\<rparr>)"
    by (simp add: handler_defs example_defs)
  have v: "amount order_negative = - 500" "balance bob = 100" "totalContests bob = 0"
    by (simp_all add: example_defs)
  have "authenticate (fst (verify_payment db_negative_order (Some 2) ''order_neg'' ''pay_2'')) (Some 2)
       = Some (bob\<lparr>balance := - 400\<rparr>)"
    using non_positive_amounts_are_applied[OF a, of "''order_neg''" order_negative "''pay_2''"] f v
    by simp
  moreover have "authenticate (fst (create_team db_negative_fee (Some 2) 30 5 20 ''m1'' ''B'' [] ''p1'' ''p2'')) (Some 2)
       = Some (bob\<lparr>balance := 150, totalContests := 1\<rparr>)"
    using non_positive_amounts_are_applied[OF a', of _ _ _ 20 "head_to_head\<lparr>entryFee := - 50\<rparr>"
        30 5 "''m1''" "''B''" "[]" "''p1''" "''p2''"] c v
    by simp
  moreover have "withdraw db_negative_fee (Some 2) (- 5) ''bob@upi''
       = (db_negative_fee, Response 400 (Error minimum_withdrawal_message))"
    using non_positive_amounts_are_applied[OF a', where amt = "- 5" and upiId = "''bob@upi''"]
    by simp
  ultimately show ?thesis using a f a' c v by simp
qed

text \<open>
  Claim C5 as stated fails: confirming the order of \<open>-500\<close> takes the caller from 100 to
  \<open>-400\<close>, and joining the contest with fee \<open>-50\<close> takes the caller from 100 to 150; both
  calls answer success.
\<close>

theorem non_positive_amounts_change_balance:
  "map balance (users db_negative_order) = [100, 100]
   \<and> amount order_negative \<le> 0
   \<and> verify_payment db_negative_order (Some 1) ''order_neg'' ''pay_2''
       = (db_negative_order\<lparr>payments := [order_500,
             order_negative\<lparr>paymentId := Some ''pay_2'', status := ''completed''\<rparr>],
           users := [alice\<lparr>balance := - 400\<rparr>, bob]\<rparr>,
          Response 200 (Success ''Payment successful''))
   \<and> map balance (users db_negative_fee) = [100, 100]
   \<and> map entryFee (contests db_negative_fee) = [- 50]
   \<and> snd (create_team db_negative_fee (Some 2) 30 5 20 ''m1'' ''B'' [] ''p1'' ''p2'')
       = Response 201 (TeamCreated 30 ''Team created successfully'')
   \<and> map balance (users (fst (create_team db_negative_fee (Some 2) 30 5 20 ''m1'' ''B'' [] ''p1'' ''p2'')))
       = [100, 150]"
  by (simp add: all_handlers handler_defs example_defs)

section \<open>Contest capacity\<close>

lemma handle_keeps_joinedTeams_nonneg:
  assumes "joinedTeams_nonneg s"
  shows "joinedTeams_nonneg (fst (handle s r))"
proof (cases r)
  case (Register nid now nm em ph pw)
  with assms show ?thesis by (simp add: joinedTeams_nonneg_def register_rest)
next
  case (VerifyPayment tok oid pref)
  show ?thesis
  proof (cases rule: verify_payment_cases[where s=s and tok=tok and oid=oid and pref=pref])
    case unchanged
    with assms show ?thesis by (simp add: VerifyPayment)
  next
    case (credited u p)
    with assms show ?thesis
      by (simp add: VerifyPayment verify_payment_found[OF credited] joinedTeams_nonneg_def)
  qed
next
  case (CreateTeam tok nid now cid mid tn ps cap vc)
  show ?thesis
  proof (cases rule: create_team_cases[where s=s and tok=tok and nid=nid and now=now and cid=cid
        and mid=mid and tn=tn and ps=ps and cap=cap and vc=vc])
    case unchanged
    with assms show ?thesis by (simp add: CreateTeam)
  next
    case (joined u c)
    have "list_all (\<lambda>c. 0 \<le> joinedTeams c)
            (update_first (\<lambda>c. contest_id c = cid) (\<lambda>k. k\<lparr>joinedTeams := joinedTeams k + 1\<rparr>) (contests s))"
      using assms by (intro list_all_update_first) (simp_all add: joinedTeams_nonneg_def)
    then show ?thesis
      by (simp add: CreateTeam create_team_joined[OF joined] joinedTeams_nonneg_def
          contestFindByIdAndUpdate_def)
  qed
next
  case (Withdraw tok amt upi)
  show ?thesis
  proof (cases rule: withdraw_cases[where s=s and tok=tok and amt=amt and upi=upi])
    case unchanged
    with assms show ?thesis by (simp add: Withdraw)
  next
    case (debited u)
    with assms show ?thesis by (simp add: Withdraw joinedTeams_nonneg_def)
  qed
qed

lemma joinedTeams_stay_nonneg:
  "joinedTeams_nonneg s \<Longrightarrow> list_all joinedTeams_nonneg (observable_states s rs)"
proof (induction rs arbitrary: s)
  case Nil
  then show ?case by simp
next
  case (Cons r rs)
  from handle_keeps_joinedTeams_nonneg[OF Cons.prems, of r] Cons.IH[of "fst (handle s r)"] Cons.prems
  show ?case by simp
qed

text \<open>
  Claim C2 (as amended). Every request keeps \<open>0 \<le> joinedTeams\<close> for every contest, but
  nothing keeps \<open>joinedTeams \<le> maxTeams\<close>: \<^verbatim>\<open>POST /api/create-team\<close> reads neither
  \<^verbatim>\<open>maxTeams\<close> nor \<^verbatim>\<open>isActive\<close>. A join of a full or closed contest by an authenticated
  account whose balance covers the entry fee answers 201, increments \<^verbatim>\<open>joinedTeams\<close>,
  debits the fee, increments \<^verbatim>\<open>totalContests\<close> and stores one more team.
\<close>

theorem join_ignores_capacity_and_closure:
  "(joinedTeams_nonneg s \<longrightarrow> list_all joinedTeams_nonneg (observable_states s rs))
   \<and> (authenticate s tok = Some u \<and> findContestById cid (contests s) = Some c
        \<and> (joinedTeams c = maxTeams c \<or> isActive c = False) \<and> entryFee c \<le> balance u \<longrightarrow>
          snd (create_team s tok nid now cid mid tn ps cap vc)
            = Response 201 (TeamCreated nid ''Team created successfully'')
        \<and> findContestById cid (contests (fst (create_team s tok nid now cid mid tn ps cap vc)))
            = Some (c\<lparr>joinedTeams := joinedTeams c + 1\<rparr>)
        \<and> authenticate (fst (create_team s tok nid now cid mid tn ps cap vc)) tok
            = Some (u\<lparr>balance := balance u - entryFee c, totalContests := totalContests u + 1\<rparr>)
        \<and> length (teams (fst (create_team s tok nid now cid mid tn ps cap vc)))
            = length (teams s) + 1)"
proof (intro conjI impI; (elim conjE)?)
  assume "joinedTeams_nonneg s"
  then show "list_all joinedTeams_nonneg (observable_states s rs)"
    by (rule joinedTeams_stay_nonneg)
next
  assume a: "authenticate s tok = Some u" and c: "findContestById cid (contests s) = Some c"
    and fee: "entryFee c \<le> balance u"
  note post = create_team_joined[OF a c fee, of nid now mid tn ps cap vc]
  show "snd (create_team s tok nid now cid mid tn ps cap vc)
          = Response 201 (TeamCreated nid ''Team created successfully'')"
    by (simp add: post)
  show "findContestById cid (contests (fst (create_team s tok nid now cid mid tn ps cap vc)))
          = Some (c\<lparr>joinedTeams := joinedTeams c + 1\<rparr>)"
    by (rule contest_after_join[OF a c fee])
  show "authenticate (fst (create_team s tok nid now cid mid tn ps cap vc)) tok
          = Some (u\<lparr>balance := balance u - entryFee c, totalContests := totalContests u + 1\<rparr>)"
    by (rule authenticate_after_join[OF a c fee])
  show "length (teams (fst (create_team s tok nid now cid mid tn ps cap vc))) = length (teams s) + 1"
    by (simp add: post)
qed

text \<open>Two joins of the one-team contest, and a join of the contest that is already full.\<close>

theorem join_ignores_capacity_and_closure_witness:
  "joinedTeams_nonneg db0
   \<and> list_all joinedTeams_nonneg
       (observable_states db0
          [CreateTeam (Some 1) 30 5 20 ''m1'' ''A'' [] ''p1'' ''p2'',
           CreateTeam (Some 2) 31 6 20 ''m1'' ''B'' [] ''p1'' ''p2''])
   \<and> authenticate db_full_contest (Some 2) = Some bob
   \<and> findContestById 20 (contests db_full_contest) = Some (head_to_head\<lparr>joinedTeams := 1\<rparr>)
   \<and> joinedTeams (head_to_head\<lparr>joinedTeams := 1\<rparr>) = maxTeams (head_to_head\<lparr>joinedTeams := 1\<rparr>)
   \<and> entryFee (head_to_head\<lparr>joinedTeams := 1\<rparr>) \<le> balance bob
   \<and> snd (create_team db_full_contest (Some 2) 31 6 20 ''m1'' ''B'' [] ''p1'' ''p2'')
       = Response 201 (TeamCreated 31 ''Team created successfully'')
   \<and> findContestById 20
         (contests (fst (create_team db_full_contest (Some 2) 31 6 20 ''m1'' ''B'' [] ''p1'' ''p2'')))
       = Some (head_to_head\<lparr>joinedTeams := 2\<rparr>)"
proof -
  let ?rs = "[CreateTeam (Some 1) 30 5 20 ''m1'' ''A'' [] ''p1'' ''p2'',
              CreateTeam (Some 2) 31 6 20 ''m1'' ''B'' [] ''p1'' ''p2'']"
  let ?c = "head_to_head\<lparr>joinedTeams := 1\<rparr>"
  have n: "joinedTeams_nonneg db0" by (simp add: joinedTeams_nonneg_def example_defs)
  have a: "authenticate db_full_contest (Some 2) = Some bob"
    by (simp add: handler_defs example_defs)
  have c: "findContestById 20 (contests db_full_contest) = Some ?c"
    by (simp add: handler_defs example_defs)
  have full: "joinedTeams ?c = maxTeams ?c" by (simp add: example_defs)
  have fee: "entryFee ?c \<le> balance bob" by (simp add: example_defs)
  have inv: "list_all joinedTeams_nonneg (observable_states db0 ?rs)"
    using join_ignores_capacity_and_closure[of db0 ?rs] n by blast
  have "snd (create_team db_full_contest (Some 2) 31 6 20 ''m1'' ''B'' [] ''p1'' ''p2'')
       = Response 201 (TeamCreated 31 ''Team created successfully'')
     \<and> findContestById 20
         (contests (fst (create_team db_full_contest (Some 2) 31 6 20 ''m1'' ''B'' [] ''p1'' ''p2'')))
       = Some (?c\<lparr>joinedTeams := joinedTeams ?c + 1\<rparr>)"
    using join_ignores_capacity_and_closure[of db_full_contest "[]" "Some 2" bob 20 ?c
        31 6 "''m1''" "''B''" "[]" "''p1''" "''p2''"] a c full fee
    by blast
  moreover have "?c\<lparr>joinedTeams := joinedTeams ?c + 1\<rparr> = head_to_head\<lparr>joinedTeams := 2\<rparr>"
    by (simp add: example_defs)
  ultimately show ?thesis using n a c full fee inv by simp
qed

text \<open>
  Claim C2 as stated fails on the scenario of the specification: after the first account
  joined the contest with \<^verbatim>\<open>maxTeams\<close> 1, the join by the second account answers 201 and
  leaves \<^verbatim>\<open>joinedTeams\<close> at 2, with both fees taken and both teams stored. A join of a
  closed contest answers 201 as well.
\<close>

theorem full_and_closed_contests_accept_joins:
  "map maxTeams (contests db0) = [1]
   \<and> snd (create_team db0 (Some 1) 30 5 20 ''m1'' ''A'' [] ''p1'' ''p2'')
       = Response 201 (TeamCreated 30 ''Team created successfully'')
   \<and> map joinedTeams (contests (fst (create_team db0 (Some 1) 30 5 20 ''m1'' ''A'' [] ''p1'' ''p2''))) = [1]
   \<and> snd (create_team (fst (create_team db0 (Some 1) 30 5 20 ''m1'' ''A'' [] ''p1'' ''p2''))
          (Some 2) 31 6 20 ''m1'' ''B'' [] ''p1'' ''p2'')
       = Response 201 (TeamCreated 31 ''Team created successfully'')
   \<and> map joinedTeams (contests (fst (create_team
          (fst (create_team db0 (Some 1) 30 5 20 ''m1'' ''A'' [] ''p1'' ''p2''))
          (Some 2) 31 6 20 ''m1'' ''B'' [] ''p1'' ''p2''))) = [2]
   \<and> map balance (users (fst (create_team
          (fst (create_team db0 (Some 1) 30 5 20 ''m1'' ''A'' [] ''p1'' ''p2''))
          (Some 2) 31 6 20 ''m1'' ''B'' [] ''p1'' ''p2''))) = [0, 0]
   \<and> map team_id (teams (fst (create_team
          (fst (create_team db0 (Some 1) 30 5 20 ''m1'' ''A'' [] ''p1'' ''p2''))
          (Some 2) 31 6 20 ''m1'' ''B'' [] ''p1'' ''p2''))) = [30, 31]
   \<and> map isActive (contests db_closed_contest) = [False]
   \<and> snd (create_team db_closed_contest (Some 1) 30 5 20 ''m1'' ''A'' [] ''p1'' ''p2'')
       = Response 201 (TeamCreated 30 ''Team created successfully'')
   \<and> map joinedTeams (contests (fst (create_team db_closed_contest (Some 1) 30 5 20 ''m1'' ''A'' [] ''p1'' ''p2''))) = [1]"
  by (simp add: all_handlers handler_defs example_defs)

section \<open>The leaderboard\<close>

text \<open>Both example sorts are sorts the database may use.\<close>

lemma sort_ties_oldest_first_sorts: "sorts_by_totalPoints_desc sort_ties_oldest_first"
proof -
  have "sorted_wrt (\<lambda>a b. totalPoints b \<le> totalPoints a) (sort_key (\<lambda>t. - totalPoints t) ts)" for ts :: "team list"
    using sorted_sort_key[of "\<lambda>t. - totalPoints t" ts]
    by (simp add: sorted_wrt_map)
  then show ?thesis
    by (simp add: sorts_by_totalPoints_desc_def sort_ties_oldest_first_def)
qed

lemma sort_ties_newest_first_sorts: "sorts_by_totalPoints_desc sort_ties_newest_first"
proof -
  have "sorted_wrt (\<lambda>a b. totalPoints b \<le> totalPoints a) (rev (sort_key totalPoints ts))" for ts :: "team list"
    using sorted_sort_key[of totalPoints ts]
    by (simp add: sorted_wrt_map sorted_wrt_rev)
  then show ?thesis
    by (simp add: sorts_by_totalPoints_desc_def sort_ties_newest_first_def)
qed

lemma assign_ranks_populated:
  "assign_ranks i (map (populate_userId s) ts) =
     map (\<lambda>(k, t). \<lparr>entry_team = t\<lparr>rank := Some (int k + 1)\<rparr>,
                      entry_userName = map_option name (findUserById (userId t) (users s))\<rparr>)
       (enumerate i ts)"
  by (induction ts arbitrary: i) (simp_all add: populate_userId_def)

lemma length_assign_ranks: "length (assign_ranks i es) = length es"
  by (induction es arbitrary: i) simp_all

text \<open>
  Claim C9 (as amended). For any sort the database may use,
  \<^verbatim>\<open>GET /api/leaderboard/:contestId\<close> leaves the database unchanged and answers with the
  first 100 teams of an arrangement of all the contest's teams in descending order of
  \<^verbatim>\<open>totalPoints\<close>, the \<open>k\<close>-th of them carrying rank \<open>k\<close> (from 1) and its owner's name.
  Teams beyond the hundredth are not returned, and the order among teams with equal points
  is the database's choice: the creation time is not a sort key.
\<close>

theorem leaderboard_first_hundred:
  assumes "sorts_by_totalPoints_desc dbsort"
  shows "fst (leaderboard dbsort s cid) = s
    \<and> (\<exists>ts. mset ts = mset (filter (\<lambda>t. contestId t = cid) (teams s))
          \<and> sorted_wrt (\<lambda>a b. totalPoints b \<le> totalPoints a) ts
          \<and> snd (leaderboard dbsort s cid) =
              Response 200 (Teams
                (map (\<lambda>(k, t). \<lparr>entry_team = t\<lparr>rank := Some (int k + 1)\<rparr>,
                                 entry_userName = map_option name (findUserById (userId t) (users s))\<rparr>)
                   (enumerate 0 (take 100 ts)))))"
proof -
  let ?ts = "dbsort (filter (\<lambda>t. contestId t = cid) (teams s))"
  have "mset ?ts = mset (filter (\<lambda>t. contestId t = cid) (teams s))"
    and "sorted_wrt (\<lambda>a b. totalPoints b \<le> totalPoints a) ?ts"
    using assms by (simp_all add: sorts_by_totalPoints_desc_def)
  moreover have "snd (leaderboard dbsort s cid) =
              Response 200 (Teams
                (map (\<lambda>(k, t). \<lparr>entry_team = t\<lparr>rank := Some (int k + 1)\<rparr>,
                                 entry_userName = map_option name (findUserById (userId t) (users s))\<rparr>)
                   (enumerate 0 (take 100 ?ts))))"
    by (simp add: leaderboard_def Let_def assign_ranks_populated)
  moreover have "fst (leaderboard dbsort s cid) = s"
    by (simp add: leaderboard_def Let_def)
  ultimately show ?thesis by blast
qed

text \<open>Three teams, two of them tied at 50 points.\<close>

theorem leaderboard_first_hundred_witness:
  "sorts_by_totalPoints_desc sort_ties_oldest_first
   \<and> fst (leaderboard sort_ties_oldest_first db_tied_teams 20) = db_tied_teams
   \<and> (\<exists>ts. mset ts = mset (filter (\<lambda>t. contestId t = 20) (teams db_tied_teams))
          \<and> sorted_wrt (\<lambda>a b. totalPoints b \<le> totalPoints a) ts
          \<and> snd (leaderboard sort_ties_oldest_first db_tied_teams 20) =
              Response 200 (Teams
                (map (\<lambda>(k, t). \<lparr>entry_team = t\<lparr>rank := Some (int k + 1)\<rparr>,
                                 entry_userName = map_option name (findUserById (userId t) (users db_tied_teams))\<rparr>)
                   (enumerate 0 (take 100 ts)))))
   \<and> map (\<lambda>e. (team_id (entry_team e), totalPoints (entry_team e), rank (entry_team e), entry_userName e))
        (response_teams (snd (leaderboard sort_ties_oldest_first db_tied_teams 20)))
       = [(101, 70, Some 1, Some ''Alice''), (100, 50, Some 2, Some ''Alice''),
          (102, 50, Some 3, Some ''Alice'')]"
proof -
  have "map (\<lambda>e. (team_id (entry_team e), totalPoints (entry_team e), rank (entry_team e), entry_userName e))
        (response_teams (snd (leaderboard sort_ties_oldest_first db_tied_teams 20)))
       = [(101, 70, Some 1, Some ''Alice''), (100, 50, Some 2, Some ''Alice''),
          (102, 50, Some 3, Some ''Alice'')]"
    by (simp add: leaderboard_def Let_def sort_ties_oldest_first_def populate_userId_def
        handler_defs example_defs)
  with leaderboard_first_hundred[OF sort_ties_oldest_first_sorts, of db_tied_teams 20]
    sort_ties_oldest_first_sorts
  show ?thesis by blast
qed

text \<open>
  Claim C9 as stated fails twice. A contest with 101 teams gets an answer of 100 entries.
  And with a sort that the database may use, of the two teams tied at 50 points the one
  created later (team 102, created at 12) is ranked above the one created earlier (team
  100, created at 10).
\<close>

theorem leaderboard_cut_and_tie_order:
  "length (filter (\<lambda>t. contestId t = 20) (teams db_crowded)) = 101
   \<and> length (response_teams (snd (leaderboard sort_ties_oldest_first db_crowded 20))) = 100
   \<and> sorts_by_totalPoints_desc sort_ties_newest_first
   \<and> map (\<lambda>t. (team_id t, totalPoints t, team_createdAt t)) (teams db_tied_teams)
       = [(100, 50, 10), (101, 70, 11), (102, 50, 12)]
   \<and> map (\<lambda>e. (team_id (entry_team e), rank (entry_team e)))
        (response_teams (snd (leaderboard sort_ties_newest_first db_tied_teams 20)))
       = [(101, Some 1), (102, Some 2), (100, Some 3)]"
proof -
  have all: "filter (\<lambda>t. contestId t = 20) (teams db_crowded) = teams db_crowded"
    by (simp add: db_crowded_def scored_team_def filter_map comp_def)
  have len: "length (teams db_crowded) = 101"
    by (simp add: db_crowded_def)
  have "length (response_teams (snd (leaderboard sort_ties_oldest_first db_crowded 20))) = 100"
    by (simp add: leaderboard_def Let_def length_assign_ranks all len sort_ties_oldest_first_def)
  moreover have "map (\<lambda>t. (team_id t, totalPoints t, team_createdAt t)) (teams db_tied_teams)
       = [(100, 50, 10), (101, 70, 11), (102, 50, 12)]"
    by (simp add: example_defs)
  moreover have "map (\<lambda>e. (team_id (entry_team e), rank (entry_team e)))
        (response_teams (snd (leaderboard sort_ties_newest_first db_tied_teams 20)))
       = [(101, Some 1), (102, Some 2), (100, Some 3)]"
    by (simp add: leaderboard_def Let_def sort_ties_newest_first_def populate_userId_def
        handler_defs example_defs)
  ultimately show ?thesis using all len sort_ties_newest_first_sorts by simp
qed

end
